theory Spec2Isabelle
  imports Main "HOL-Library.Monad_Syntax"
begin

section \<open>Strings of the C++ standard library\<close>

text \<open>
  A \<^verbatim>\<open>std::string\<close> is a \<^typ>\<open>string\<close> (a list of bytes). A function of the logger
  that may not return normally (a loop that never ends, an exception that propagates)
  returns an \<^typ>\<open>'a option\<close>, and \<^term>\<open>None\<close> is "the call does not return a value".
\<close>

text \<open>
  \<^verbatim>\<open>source.find(str, pos)\<close>: the least position \<open>j \<ge> pos\<close> at which \<open>str\<close> occurs in
  \<open>source\<close>; \<^verbatim>\<open>npos\<close> is \<^term>\<open>None\<close>. The empty string occurs at every position up to
  the size; a position beyond the size finds nothing.
\<close>

fun find_in :: "string \<Rightarrow> string \<Rightarrow> nat option" where
  "find_in [] str = (if str = [] then Some 0 else None)"
| "find_in (c # cs) str =
     (if take (length str) (c # cs) = str then Some 0 else map_option Suc (find_in cs str))"

definition string_find :: "string \<Rightarrow> string \<Rightarrow> nat \<Rightarrow> nat option" where
  "string_find source str pos =
     (if length source < pos then None
      else map_option (\<lambda>k. pos + k) (find_in (drop pos source) str))"

text \<open>
  \<^verbatim>\<open>source.rfind(str)\<close>: the greatest position at which \<open>str\<close> occurs, or \<^verbatim>\<open>npos\<close>.
\<close>

fun string_rfind :: "string \<Rightarrow> string \<Rightarrow> nat option" where
  "string_rfind [] str = (if str = [] then Some 0 else None)"
| "string_rfind (c # cs) str =
     (case string_rfind cs str of
        Some k \<Rightarrow> Some (Suc k)
      | None \<Rightarrow> (if take (length str) (c # cs) = str then Some 0 else None))"

text \<open>
  \<^verbatim>\<open>source.replace(pos, n, str)\<close> replaces the \<open>n\<close> characters from \<open>pos\<close> (fewer when the
  string ends before) by \<open>str\<close>; it throws \<^verbatim>\<open>std::out_of_range\<close> when \<open>pos\<close> is beyond the
  size.
\<close>

definition string_replace :: "string \<Rightarrow> nat \<Rightarrow> nat \<Rightarrow> string \<Rightarrow> string option" where
  "string_replace source pos n str =
     (if length source < pos then None
      else Some (take pos source @ str @ drop (pos + n) source))"

text \<open>\<^verbatim>\<open>str.pop_back()\<close> removes the last character.\<close>

definition pop_back :: "string \<Rightarrow> string" where
  "pop_back str = butlast str"

text \<open>
  \<^verbatim>\<open>str.c_str()\<close> read as a C string (by \<^verbatim>\<open>%s\<close>): the characters before the first NUL.
\<close>

definition c_str :: "string \<Rightarrow> string" where
  "c_str str = takeWhile (\<lambda>c. c \<noteq> CHR 0x00) str"

text \<open>\<^verbatim>\<open>std::to_string\<close> of an \<^verbatim>\<open>int\<close>: its decimal digits, after a minus sign when negative.\<close>

definition digit_char :: "nat \<Rightarrow> char" where
  "digit_char d = ''0123456789'' ! d"

function nat_to_string :: "nat \<Rightarrow> string" where
  "nat_to_string n =
     (if n < 10 then [digit_char n] else nat_to_string (n div 10) @ [digit_char (n mod 10)])"
  by pat_completeness auto
termination
  by (relation "measure (\<lambda>n. n)") auto

definition to_string :: "int \<Rightarrow> string" where
  "to_string i = (if i < 0 then CHR ''-'' # nat_to_string (nat (- i)) else nat_to_string (nat i))"

text \<open>
  \<^verbatim>\<open>std::atoi\<close> as the C library of the platform has it, the result of \<^verbatim>\<open>strtol\<close> in base
  10 cast to \<^verbatim>\<open>int\<close>. \<^verbatim>\<open>strtol\<close> skips white space, reads an optional sign and the decimal
  digits that follow, stops at the first other character (no digits give 0), and saturates
  at the range of \<^verbatim>\<open>long\<close>, which has \<open>long_bits\<close> bits (32 or 64); the cast keeps the low
  32 bits, read as a signed number. (C leaves \<^verbatim>\<open>atoi\<close> undefined outside the range of
  \<^verbatim>\<open>int\<close>.)
\<close>

definition isspace :: "char \<Rightarrow> bool" where
  "isspace c = (c = CHR '' '' \<or> c = CHR 0x09 \<or> c = CHR 0x0A \<or> c = CHR 0x0B
                \<or> c = CHR 0x0C \<or> c = CHR 0x0D)"

definition isdigit :: "char \<Rightarrow> bool" where
  "isdigit c = (48 \<le> (of_char c :: nat) \<and> (of_char c :: nat) \<le> 57)"

definition digits_value :: "string \<Rightarrow> int" where
  "digits_value ds = foldl (\<lambda>acc c. 10 * acc + (int (of_char c) - 48)) 0 ds"

definition strtol :: "nat \<Rightarrow> string \<Rightarrow> int" where
  "strtol long_bits str =
     (let s1 = dropWhile isspace str;
          neg = (s1 \<noteq> [] \<and> hd s1 = CHR ''-'');
          s2 = (if s1 \<noteq> [] \<and> (hd s1 = CHR ''-'' \<or> hd s1 = CHR ''+'') then tl s1 else s1);
          n = digits_value (takeWhile isdigit s2);
          v = (if neg then - n else n)
      in max (- (2 ^ (long_bits - 1))) (min (2 ^ (long_bits - 1) - 1) v))"

definition long_to_int :: "int \<Rightarrow> int" where
  "long_to_int v = (v + 2147483648) mod 4294967296 - 2147483648"

definition atoi :: "nat \<Rightarrow> string \<Rightarrow> int" where
  "atoi long_bits str = long_to_int (strtol long_bits str)"

section \<open>Logger::FindAndReplace\<close>

text \<open>
  The loop of \<^verbatim>\<open>Logger::FindAndReplace\<close>, started at position \<open>i\<close>: find the next
  occurrence, replace it, go on behind the replacement. With an empty \<open>find\<close> string the
  loop of the source never ends, so the function is partial.
\<close>

partial_function (option)
  FindAndReplace_loop :: "string \<Rightarrow> string \<Rightarrow> string \<Rightarrow> nat \<Rightarrow> string option"
where
  "FindAndReplace_loop source find_str replace_str i =
     (case string_find source find_str i of
        None \<Rightarrow> Some source
      | Some j \<Rightarrow>
          Option.bind (string_replace source j (length find_str) replace_str)
            (\<lambda>source'. FindAndReplace_loop source' find_str replace_str (j + length replace_str)))"

declare FindAndReplace_loop.simps [code]

definition FindAndReplace :: "string \<Rightarrow> string \<Rightarrow> string \<Rightarrow> string option" where
  "FindAndReplace source find_str replace_str = FindAndReplace_loop source find_str replace_str 0"

section \<open>LogLocation\<close>

record LogLocation =
  "file" :: string
  func :: string
  line :: int

text \<open>\<^verbatim>\<open>LogLocation::operator std::string\<close>: file, function and line, separated by colons.\<close>

definition LogLocation_string :: "LogLocation \<Rightarrow> string" where
  "LogLocation_string loc = file loc @ '':'' @ func loc @ '':'' @ to_string (line loc)"

text \<open>
  \<^verbatim>\<open>LogLocation::ShortFilename\<close>: the name from its first \<^verbatim>\<open>wpilib\<close> on, else from its last
  \<^verbatim>\<open>src\<close> on, else the whole name.
\<close>

definition ShortFilename :: "string \<Rightarrow> string" where
  "ShortFilename name =
     (case string_find name ''wpilib'' 0 of
        Some start \<Rightarrow> drop start name
      | None \<Rightarrow>
          (case string_rfind name ''src'' of
             Some start \<Rightarrow> drop start name
           | None \<Rightarrow> name))"

section \<open>ErrorCodes\<close>

text \<open>
  A non-null \<^verbatim>\<open>const char *\<close> is the address it holds and the characters it points to; the
  null pointer is \<^term>\<open>None\<close>. \<^verbatim>\<open>m_names\<close> is a \<^verbatim>\<open>std::map<const char *, int>\<close>: its keys are
  compared as pointers, so the model keys it by address. \<^verbatim>\<open>m_codes\<close> holds the pointers to
  the messages; the model holds their characters, and so takes every registered message to
  stay alive and unchanged, as the string literals of the constructor do.
\<close>

datatype c_string = CStr (addr: nat) (chars: string)

record ErrorCodes =
  m_codes :: "int \<rightharpoonup> string"
  m_names :: "nat \<rightharpoonup> int"

definition ErrorCodes_Get :: "ErrorCodes \<Rightarrow> int \<Rightarrow> string" where
  "ErrorCodes_Get ec cd = (case m_codes ec cd of Some msg \<Rightarrow> msg | None \<Rightarrow> [])"

definition ErrorCodes_GetCode :: "ErrorCodes \<Rightarrow> c_string option \<Rightarrow> int" where
  "ErrorCodes_GetCode ec name =
     (case name of
        None \<Rightarrow> 0
      | Some p \<Rightarrow> (case m_names ec (addr p) of Some cd \<Rightarrow> cd | None \<Rightarrow> 0))"

definition ErrorCodes_Add ::
  "int \<Rightarrow> string \<Rightarrow> c_string option \<Rightarrow> ErrorCodes \<Rightarrow> bool \<times> ErrorCodes" where
  "ErrorCodes_Add cd msg name ec =
     (case m_codes ec cd of
        Some old \<Rightarrow> (False, ec)
      | None \<Rightarrow>
          (True,
           ec\<lparr>m_codes := (m_codes ec)(cd \<mapsto> msg),
              m_names := (case name of
                            None \<Rightarrow> m_names ec
                          | Some p \<Rightarrow> (m_names ec)(addr p \<mapsto> cd))\<rparr>))"

text \<open>
  The constructor registers the table below in order, each name through the string literal
  that the \<^verbatim>\<open>CODE\<close> macro makes of it; \<open>lit\<close> gives the address of each literal.
\<close>

definition ErrorCodes_table :: "(string \<times> int \<times> string) list" where
  "ErrorCodes_table =
    [(''ModuleIndexOutOfRange'', - 1, ''Allocating module that is out of range or not found''),
     (''ChannelIndexOutOfRange'', - 1, ''Allocating channel that is out of range''),
     (''NotAllocated'', - 2, ''Attempting to free unallocated resource''),
     (''ResourceAlreadyAllocated'', - 3, ''Attempted to reuse an allocated resource''),
     (''NoAvailableResources'', - 4, ''No available resources to allocate''),
     (''NullParameter'', - 5, ''A pointer parameter to a method is nullptr''),
     (''Timeout'', - 6, ''A timeout has been exceeded''),
     (''CompassManufacturerError'', - 7, ''Compass manufacturer doesn't match HiTechnic''),
     (''CompassTypeError'', - 8, ''Compass type doesn't match expected type for HiTechnic compass''),
     (''IncompatibleMode'', - 9, ''The object is in an incompatible mode''),
     (''AnalogTriggerLimitOrderError'', - 10, ''AnalogTrigger limits error.  Lower limit > Upper Limit''),
     (''AnalogTriggerPulseOutputError'', - 11, ''Attempted to read AnalogTrigger pulse output.''),
     (''TaskError'', - 12, ''Task can't be started''),
     (''TaskIDError'', - 13, ''Task error: Invalid ID.''),
     (''TaskDeletedError'', - 14, ''Task error: Task already deleted.''),
     (''TaskOptionsError'', - 15, ''Task error: Invalid options.''),
     (''TaskMemoryError'', - 16, ''Task can't be started due to insufficient memory.''),
     (''TaskPriorityError'', - 17, ''Task error: Invalid priority [1-255].''),
     (''DriveUninitialized'', - 18, ''RobotDrive not initialized for the C interface''),
     (''CompressorNonMatching'', - 19, ''Compressor slot/channel doesn't match previous instance''),
     (''CompressorAlreadyDefined'', - 20, ''Creating a second compressor instance''),
     (''CompressorUndefined'', - 21, ''Using compressor functions without defining compressor''),
     (''InconsistentArrayValueAdded'', - 22, ''When packing data into an array to the dashboard, not all values added were of the same type.''),
     (''MismatchedComplexTypeClose'', - 23, ''When packing data to the dashboard, a Close for a complex type was called without a matching Open.''),
     (''DashboardDataOverflow'', - 24, ''When packing data to the dashboard, too much data was packed and the buffer overflowed.''),
     (''DashboardDataCollision'', - 25, ''The same buffer was used for packing data and for printing.''),
     (''EnhancedIOMissing'', - 26, ''IO is not attached or Enhanced IO is not enabled.''),
     (''LineNotOutput'', - 27, ''Cannot SetDigitalOutput for a line not configured for output.''),
     (''ParameterOutOfRange'', - 28, ''A parameter is out of range.''),
     (''SPIClockRateTooLow'', - 29, ''SPI clock rate was below the minimum supported''),
     (''JaguarVersionError'', - 30, ''Jaguar firmware version error''),
     (''JaguarMessageNotFound'', - 31, ''Jaguar message not found''),
     (''NetworkTablesReadError'', - 40, ''Error reading NetworkTables socket''),
     (''NetworkTablesBufferFull'', - 41, ''Buffer full writing to NetworkTables socket''),
     (''NetworkTablesWrongType'', - 42, ''The wrong type was read from the NetworkTables entry''),
     (''NetworkTablesCorrupt'', - 43, ''NetworkTables data stream is corrupt''),
     (''SmartDashboardMissingKey'', - 43, ''SmartDashboard data does not exist''),
     (''CommandIllegalUse'', - 50, ''Illegal use of Command''),
     (''UnsupportedInSimulation'', - 80, ''Unsupported in simulation''),
     (''SampleRateTooHigh'', 1, ''Analog module sample rate is too high''),
     (''VoltageOutOfRange'', 2, ''Voltage to convert to raw value is out of range [-10; 10]''),
     (''CompressorTaskError'', 3, ''Compressor task won't start''),
     (''LoopTimingError'', 4, ''Digital module loop timing is not the expected value''),
     (''NonBinaryDigitalValue'', 5, ''Digital output value is not 0 or 1''),
     (''IncorrectBatteryChannel'', 6, ''Battery measurement channel is not correct value''),
     (''BadJoystickIndex'', 7, ''Joystick index is out of range, should be 0-3''),
     (''BadJoystickAxis'', 8, ''Joystick axis or POV is out of range''),
     (''InvalidMotorIndex'', 9, ''Motor index is out of range, should be 0-3''),
     (''DriverStationTaskError'', 10, ''Driver Station task won't start''),
     (''EnhancedIOPWMPeriodOutOfRange'', 11, ''Driver Station Enhanced IO PWM Output period out of range.''),
     (''SPIWriteNoMOSI'', 12, ''Cannot write to SPI port with no MOSI output''),
     (''SPIReadNoMISO'', 13, ''Cannot read from SPI port with no MISO input''),
     (''SPIReadNoData'', 14, ''No data available to read from SPI''),
     (''IncompatibleState'', 15, ''Incompatible State: The operation cannot be completed'')]"

definition ErrorCodes_ctor :: "(string \<Rightarrow> nat) \<Rightarrow> ErrorCodes" where
  "ErrorCodes_ctor lit =
     foldl (\<lambda>ec (name, cd, msg). snd (ErrorCodes_Add cd msg (Some (CStr (lit name) name)) ec))
       \<lparr>m_codes = Map.empty, m_names = Map.empty\<rparr> ErrorCodes_table"

section \<open>Logger\<close>

record LogMessage =
  level :: int
  code :: int
  details :: string
  location :: LogLocation
  timestamp :: int
  stacktrace :: string
  originatingObject :: string

text \<open>
  A \<^verbatim>\<open>const char *\<close> handed to a function that reads it: either it points to characters, or
  it dangles (what it pointed to is destroyed) and nothing is defined about what is read.
\<close>

datatype c_pointer = Chars string | Dangling

text \<open>
  \<^verbatim>\<open>LogLocation::operator const char *\<close> returns \<^verbatim>\<open>c_str()\<close> of the temporary string that
  the conversion to \<^verbatim>\<open>std::string\<close> makes; the temporary is destroyed when the operator
  returns, so the pointer dangles for every location.
\<close>

definition LogLocation_c_str :: "LogLocation \<Rightarrow> c_pointer" where
  "LogLocation_c_str loc = Dangling"

text \<open>
  The arguments of one call of \<^verbatim>\<open>HALSendError\<close>: \<^verbatim>\<open>isError\<close>, the code, the details and the
  stack trace as C strings, and the pointer passed for the location.
\<close>

record HALSendError_call =
  isError :: bool
  errorCode :: int
  hal_details :: string
  hal_location :: c_pointer
  hal_callStack :: string

text \<open>
  The state of the logger: its registries, its two switches and its pending buffer, and what
  it has written so far to \<^verbatim>\<open>std::cout\<close> and sent through \<^verbatim>\<open>HALSendError\<close>.

  A formatter is a \<^verbatim>\<open>std::function\<close>: each call of it on a message returns the line, and may
  read and change the state that the formatter has captured. \<open>captured\<close> is that state, of
  any type \<open>'f\<close>, shared by the registered formatters; a formatter without state leaves it
  as it is. A \<^verbatim>\<open>std::function\<close> that holds no target, throws or calls back into the logger
  is outside the model. The mutexes, the listeners and the flushing thread are not part of
  this state.
\<close>

type_synonym 'f FormatLogFunc = "LogMessage \<Rightarrow> 'f \<Rightarrow> string \<times> 'f"

record 'f Logger =
  m_levels :: "int \<rightharpoonup> string"
  m_levelFormats :: "int \<rightharpoonup> 'f FormatLogFunc"
  m_usestdout :: bool
  m_useNI :: bool
  m_pending :: string
  cout :: string
  HAL_sent :: "HALSendError_call list"
  captured :: 'f

definition kNIWarning :: int where "kNIWarning = 2"
definition kNIError :: int where "kNIError = 3"
definition kDEBUG :: int where "kDEBUG = 1"
definition kWARNING :: int where "kWARNING = 2"
definition kERROR :: int where "kERROR = 3"

definition Logger_init :: "'f \<Rightarrow> 'f Logger" where
  "Logger_init c =
     \<lparr>m_levels = [1 \<mapsto> ''DEBUG'', 2 \<mapsto> ''WARNING'', 3 \<mapsto> ''ERROR''],
      m_levelFormats = Map.empty,
      m_usestdout = True,
      m_useNI = True,
      m_pending = [],
      cout = [],
      HAL_sent = [],
      captured = c\<rparr>"

text \<open>
  What a call of \<^verbatim>\<open>Log\<close> reads from its surroundings: the steady clock (in nanoseconds
  since its epoch), the stack trace at a given depth, and the width of \<^verbatim>\<open>long\<close> on the
  platform.
\<close>

record environment =
  now :: int
  GetStackTrace :: "int \<Rightarrow> string"
  long_bits :: nat

text \<open>
  \<^verbatim>\<open>m[k]\<close> on a \<^verbatim>\<open>std::map\<close> with string values: the value at \<open>k\<close>; a missing key is
  inserted with the empty string first.
\<close>

definition map_subscript :: "('k \<rightharpoonup> string) \<Rightarrow> 'k \<Rightarrow> string \<times> ('k \<rightharpoonup> string)" where
  "map_subscript m k = (case m k of Some v \<Rightarrow> (v, m) | None \<Rightarrow> ([], m(k \<mapsto> [])))"

text \<open>\<^verbatim>\<open>duration_cast<milliseconds>\<close> of nanoseconds rounds towards zero.\<close>

definition to_milliseconds :: "int \<Rightarrow> int" where
  "to_milliseconds ns = (if 0 \<le> ns then ns div 1000000 else - ((- ns) div 1000000))"

text \<open>
  \<^verbatim>\<open>Logger::FormatDefault\<close>: \<^verbatim>\<open>snprintf\<close> into a buffer of 512 bytes keeps at most 511
  characters.
\<close>

definition kBufLen :: nat where "kBufLen = 512"

definition FormatDefault :: "LogMessage \<Rightarrow> 'f Logger \<Rightarrow> string \<times> 'f Logger" where
  "FormatDefault msg s =
     (let (name, levels') = map_subscript (m_levels s) (level msg);
          buf = take (kBufLen - 1)
                  (''['' @ c_str name @ '']: From ''
                   @ c_str (ShortFilename (LogLocation_string (location msg)))
                   @ '': '' @ c_str (details msg) @ [CHR 0x0A])
      in (buf, s\<lparr>m_levels := levels'\<rparr>))"

text \<open>
  The loop of \<^verbatim>\<open>Logger::FormatParseable\<close> over the components. Its body makes three
  replacements in the component, in this order: backslash, comma, semicolon.
\<close>

definition FormatParseable_escape :: "string \<Rightarrow> string option" where
  "FormatParseable_escape str =
     do {
       str1 \<leftarrow> FindAndReplace str [CHR 0x5C] [CHR 0x5C, CHR 0x5C];
       str2 \<leftarrow> FindAndReplace str1 '','' [CHR 0x5C, CHR '',''];
       FindAndReplace str2 '';'' [CHR 0x5C, CHR '';'']
     }"

fun FormatParseable_loop :: "string list \<Rightarrow> string \<Rightarrow> string option" where
  "FormatParseable_loop [] result = Some result"
| "FormatParseable_loop (str # rest) result =
     do {
       str' \<leftarrow> FormatParseable_escape str;
       FormatParseable_loop rest (result @ str' @ '','')
     }"

definition FormatParseable ::
  "ErrorCodes \<Rightarrow> LogMessage \<Rightarrow> 'f Logger \<Rightarrow> (string \<times> 'f Logger) option" where
  "FormatParseable ec msg s =
     (let timestamp_str = to_string (to_milliseconds (timestamp msg));
          (name, levels') = map_subscript (m_levels s) (level msg);
          components =
            [to_string (level msg), name,
             to_string (code msg), ErrorCodes_Get ec (code msg),
             LogLocation_string (location msg), timestamp_str,
             stacktrace msg, originatingObject msg,
             details msg]
      in do {
           result \<leftarrow> FormatParseable_loop components [];
           Some (pop_back result @ [CHR '';'', CHR 0x0A], s\<lparr>m_levels := levels'\<rparr>)
         })"

text \<open>
  \<^verbatim>\<open>Logger::ProcessNILog\<close>. The location reaches \<^verbatim>\<open>HALSendError\<close> through
  \<^verbatim>\<open>operator const char *\<close>.
\<close>

definition ProcessNILog :: "LogMessage \<Rightarrow> 'f Logger \<Rightarrow> 'f Logger" where
  "ProcessNILog msg s =
     s\<lparr>HAL_sent := HAL_sent s @
          [\<lparr>isError = (level msg = kNIError),
            errorCode = code msg,
            hal_details = c_str (details msg),
            hal_location = LogLocation_c_str (location msg),
            hal_callStack = c_str (stacktrace msg)\<rparr>]\<rparr>"

text \<open>
  A call \<^verbatim>\<open>m_levelFormats[msg.level](msg)\<close> of a registered formatter: it returns the line
  and leaves the captured state as the formatter has changed it.
\<close>

definition call_formatter ::
  "'f FormatLogFunc \<Rightarrow> LogMessage \<Rightarrow> 'f Logger \<Rightarrow> string \<times> 'f Logger" where
  "call_formatter formatter msg s =
     (let (formatted, c) = formatter msg (captured s) in (formatted, s\<lparr>captured := c\<rparr>))"

definition ProcessLog :: "LogMessage \<Rightarrow> 'f Logger \<Rightarrow> 'f Logger" where
  "ProcessLog msg s =
     (let (formatted, s1) =
            (case m_levelFormats s (level msg) of
               Some formatter \<Rightarrow> call_formatter formatter msg s
             | None \<Rightarrow> FormatDefault msg s)
      in s1\<lparr>cout := cout s1 @ formatted\<rparr>)"

definition ProcessCommon ::
  "ErrorCodes \<Rightarrow> LogMessage \<Rightarrow> string \<Rightarrow> 'f Logger \<Rightarrow> 'f Logger option" where
  "ProcessCommon ec msg formatted s =
     do {
       (formatted', s1) \<leftarrow>
         (if length formatted = 0 then
            (case m_levelFormats s (level msg) of
               Some formatter \<Rightarrow> Some (call_formatter formatter msg s)
             | None \<Rightarrow> FormatParseable ec msg s)
          else Some (formatted, s));
       Some (s1\<lparr>m_pending := m_pending s1 @ formatted'\<rparr>)
     }"

text \<open>The braced initialiser of the message in \<^verbatim>\<open>Log\<close>.\<close>

definition make_LogMessage ::
  "environment \<Rightarrow> int \<Rightarrow> int \<Rightarrow> string \<Rightarrow> LogLocation \<Rightarrow> string \<Rightarrow> int \<Rightarrow> LogMessage" where
  "make_LogMessage env lvl cd det loc originator depth =
     \<lparr>level = lvl, code = cd, details = det, location = loc,
      timestamp = now env, stacktrace = GetStackTrace env depth,
      originatingObject = originator\<rparr>"

text \<open>\<^verbatim>\<open>Logger::Log\<close> with an integer code.\<close>

definition Log_int ::
  "ErrorCodes \<Rightarrow> environment \<Rightarrow> int \<Rightarrow> int \<Rightarrow> string \<Rightarrow> LogLocation \<Rightarrow> string \<Rightarrow> int
     \<Rightarrow> 'f Logger \<Rightarrow> 'f Logger option" where
  "Log_int ec env lvl cd det loc originator depth s =
     (let msg = make_LogMessage env lvl cd det loc originator depth;
          s1 = (if lvl = kNIWarning \<or> lvl = kNIError then
                  (if m_useNI s then ProcessNILog msg s else s)
                else
                  (if m_usestdout s then ProcessLog msg s else s))
      in ProcessCommon ec msg [] s1)"

text \<open>\<^verbatim>\<open>Logger::Log\<close> with a code name; the default depth of the integer overload is 3.\<close>

definition Log_str ::
  "ErrorCodes \<Rightarrow> environment \<Rightarrow> int \<Rightarrow> c_string option \<Rightarrow> string \<Rightarrow> LogLocation \<Rightarrow> string
     \<Rightarrow> 'f Logger \<Rightarrow> 'f Logger option" where
  "Log_str ec env lvl codename det loc originator s =
     (case codename of
        None \<Rightarrow> Log_int ec env lvl 0 det loc originator 3 s
      | Some p \<Rightarrow>
          (let cd = atoi (long_bits env) (chars p) in
           if cd \<noteq> 0 then Log_int ec env lvl cd det loc originator 3 s
           else Log_int ec env lvl (ErrorCodes_GetCode ec (Some p)) det loc originator 3 s))"

definition SetStdoutEnable :: "bool \<Rightarrow> 'f Logger \<Rightarrow> 'f Logger" where
  "SetStdoutEnable enabled s = s\<lparr>m_usestdout := enabled\<rparr>"

definition SetNIEnable :: "bool \<Rightarrow> 'f Logger \<Rightarrow> 'f Logger" where
  "SetNIEnable enabled s = s\<lparr>m_useNI := enabled\<rparr>"

definition AddLevel :: "int \<Rightarrow> string \<Rightarrow> 'f Logger \<Rightarrow> 'f Logger" where
  "AddLevel lvl name s = s\<lparr>m_levels := (m_levels s)(lvl \<mapsto> name)\<rparr>"

definition AddFormatter :: "int \<Rightarrow> 'f FormatLogFunc \<Rightarrow> 'f Logger \<Rightarrow> 'f Logger" where
  "AddFormatter lvl formatter s = s\<lparr>m_levelFormats := (m_levelFormats s)(lvl \<mapsto> formatter)\<rparr>"

section \<open>Sequences of calls\<close>

text \<open>The calls of the public interface that act on the registries, the switches and the buffer.\<close>

datatype 'f Logger_call =
    Call_Log_int environment int int string LogLocation string int
  | Call_Log_str environment int "c_string option" string LogLocation string
  | Call_SetStdoutEnable bool
  | Call_SetNIEnable bool
  | Call_AddLevel int string
  | Call_AddFormatter int "'f FormatLogFunc"

fun do_call :: "ErrorCodes \<Rightarrow> 'f Logger_call \<Rightarrow> 'f Logger \<Rightarrow> 'f Logger option" where
  "do_call ec (Call_Log_int env lvl cd det loc originator depth) s =
     Log_int ec env lvl cd det loc originator depth s"
| "do_call ec (Call_Log_str env lvl codename det loc originator) s =
     Log_str ec env lvl codename det loc originator s"
| "do_call ec (Call_SetStdoutEnable enabled) s = Some (SetStdoutEnable enabled s)"
| "do_call ec (Call_SetNIEnable enabled) s = Some (SetNIEnable enabled s)"
| "do_call ec (Call_AddLevel lvl name) s = Some (AddLevel lvl name s)"
| "do_call ec (Call_AddFormatter lvl formatter) s = Some (AddFormatter lvl formatter s)"

fun run :: "ErrorCodes \<Rightarrow> 'f Logger_call list \<Rightarrow> 'f Logger \<Rightarrow> 'f Logger option" where
  "run ec [] s = Some s"
| "run ec (c # cs) s = do { s1 \<leftarrow> do_call ec c s; run ec cs s1 }"

section \<open>The record format as the specification words it\<close>

text \<open>
  In the words of the specification: the parseable record of section 4.2, which the source builds in
  \<^verbatim>\<open>Logger::FormatParseable\<close>. Each field has its backslashes doubled, then its commas
  preceded by a backslash, then its semicolons preceded by a backslash; the nine fields are
  joined with commas and the record ends with a semicolon and a newline. The level name of
  a level without an entry in the registry is empty.
\<close>

definition replace_each :: "char \<Rightarrow> string \<Rightarrow> string \<Rightarrow> string" where
  "replace_each c r str = concat (map (\<lambda>x. if x = c then r else [x]) str)"

definition spec_escaped :: "string \<Rightarrow> string" where
  "spec_escaped str =
     replace_each CHR '';'' [CHR 0x5C, CHR '';'']
       (replace_each CHR '','' [CHR 0x5C, CHR '','']
          (replace_each CHR 0x5C [CHR 0x5C, CHR 0x5C] str))"

fun join_with :: "string \<Rightarrow> string list \<Rightarrow> string" where
  "join_with sep [] = []"
| "join_with sep [x] = x"
| "join_with sep (x # y # ys) = x @ sep @ join_with sep (y # ys)"

definition spec_level_name :: "(int \<rightharpoonup> string) \<Rightarrow> int \<Rightarrow> string" where
  "spec_level_name levels lvl = (case levels lvl of Some name \<Rightarrow> name | None \<Rightarrow> [])"

definition spec_fields :: "ErrorCodes \<Rightarrow> (int \<rightharpoonup> string) \<Rightarrow> LogMessage \<Rightarrow> string list" where
  "spec_fields ec levels msg =
     [to_string (level msg),
      spec_level_name levels (level msg),
      to_string (code msg),
      ErrorCodes_Get ec (code msg),
      file (location msg) @ '':'' @ func (location msg) @ '':'' @ to_string (line (location msg)),
      to_string (to_milliseconds (timestamp msg)),
      stacktrace msg,
      originatingObject msg,
      details msg]"

definition spec_parseable_record :: "ErrorCodes \<Rightarrow> (int \<rightharpoonup> string) \<Rightarrow> LogMessage \<Rightarrow> string" where
  "spec_parseable_record ec levels msg =
     join_with '','' (map spec_escaped (spec_fields ec levels msg)) @ [CHR '';'', CHR 0x0A]"

text \<open>
  In the words of the specification; the source has no function that reads a record back. The spec
  un-escapes a field by the three substitutions reversed, in reverse order: backslash and
  semicolon to semicolon, then backslash and comma to comma, then two backslashes to one;
  each is one pass of \<^verbatim>\<open>FindAndReplace\<close>.
\<close>

definition spec_unescape :: "string \<Rightarrow> string option" where
  "spec_unescape str =
     do {
       str1 \<leftarrow> FindAndReplace str [CHR 0x5C, CHR '';''] '';'';
       str2 \<leftarrow> FindAndReplace str1 [CHR 0x5C, CHR '',''] '','';
       FindAndReplace str2 [CHR 0x5C, CHR 0x5C] [CHR 0x5C]
     }"

text \<open>
  In the words of the specification: the line that a call of \<^verbatim>\<open>Log\<close> owes the pending buffer
  (section 4.1), the output of the formatter registered for the level of the message if
  there is one, the parseable record otherwise. The formatter is called for the buffer in
  the captured state that it finds then: the state left by its call for the console when
  the call of \<^verbatim>\<open>Log\<close> takes the console path, the state before the call of \<^verbatim>\<open>Log\<close>
  otherwise.
\<close>

definition takes_console_path :: "'f Logger \<Rightarrow> int \<Rightarrow> bool" where
  "takes_console_path s lvl = (lvl \<noteq> kNIWarning \<and> lvl \<noteq> kNIError \<and> m_usestdout s)"

definition spec_captured_at_buffer :: "'f Logger \<Rightarrow> LogMessage \<Rightarrow> 'f" where
  "spec_captured_at_buffer s msg =
     (case m_levelFormats s (level msg) of
        Some formatter \<Rightarrow>
          (if takes_console_path s (level msg) then snd (formatter msg (captured s))
           else captured s)
      | None \<Rightarrow> captured s)"

definition spec_buffer_line :: "ErrorCodes \<Rightarrow> 'f Logger \<Rightarrow> LogMessage \<Rightarrow> string" where
  "spec_buffer_line ec s msg =
     (case m_levelFormats s (level msg) of
        Some formatter \<Rightarrow> fst (formatter msg (spec_captured_at_buffer s msg))
      | None \<Rightarrow> spec_parseable_record ec (m_levels s) msg)"

text \<open>
  A formatter without state: no call of it changes the captured state. A logger, and a
  call of the interface, whose formatters are all of this kind.
\<close>

definition stateless :: "'f FormatLogFunc \<Rightarrow> bool" where
  "stateless formatter = (\<forall>msg c. snd (formatter msg c) = c)"

definition stateless_formatters :: "'f Logger \<Rightarrow> bool" where
  "stateless_formatters s =
     (\<forall>lvl. case m_levelFormats s lvl of None \<Rightarrow> True | Some formatter \<Rightarrow> stateless formatter)"

fun adds_stateless :: "'f Logger_call \<Rightarrow> bool" where
  "adds_stateless (Call_AddFormatter lvl formatter) = stateless formatter"
| "adds_stateless c = True"

text \<open>
  Two states of the logger that agree on everything but the console: on the registries, the
  hardware switch, the pending buffer, the reports sent to the hardware channel and the
  state captured by the formatters.
\<close>

definition same_but_stdout :: "'f Logger \<Rightarrow> 'f Logger \<Rightarrow> bool" where
  "same_but_stdout s t =
     (m_levels s = m_levels t \<and> m_levelFormats s = m_levelFormats t \<and> m_useNI s = m_useNI t
      \<and> m_pending s = m_pending t \<and> HAL_sent s = HAL_sent t \<and> captured s = captured t)"

fun enables_stdout :: "'f Logger_call \<Rightarrow> bool" where
  "enables_stdout (Call_SetStdoutEnable enabled) = enabled"
| "enables_stdout c = False"

section \<open>Example values\<close>

definition ex_trace :: "int \<Rightarrow> string" where
  "ex_trace depth = ''trace''"

definition ex_env :: environment where
  "ex_env = \<lparr>now = 1234567890, GetStackTrace = ex_trace, long_bits = 32\<rparr>"

definition ex_loc :: LogLocation where
  "ex_loc = \<lparr>file = ''a.cpp'', func = ''f'', line = 10\<rparr>"

definition ex_codes :: ErrorCodes where
  "ex_codes =
     \<lparr>m_codes = [- 6 \<mapsto> ''A timeout has been exceeded''], m_names = [4096 \<mapsto> - 6]\<rparr>"

text \<open>A formatter without state, and one that counts its calls.\<close>

definition ex_formatter :: "nat FormatLogFunc" where
  "ex_formatter msg c = (''custom'', c)"

definition ex_counter :: "nat FormatLogFunc" where
  "ex_counter msg c = (to_string (int c), Suc c)"

section \<open>Searching and replacing\<close>

lemma find_in_bound: "find_in xs f = Some k \<Longrightarrow> k + length f \<le> length xs"
proof (induction xs arbitrary: k)
  case Nil
  then show ?case by (simp split: if_splits)
next
  case (Cons c cs)
  show ?case
  proof (cases "take (length f) (c # cs) = f")
    case True
    then have "length (take (length f) (c # cs)) = length f"
      by (rule arg_cong)
    then have "length f \<le> length (c # cs)"
      by (simp only: length_take)
    with True Cons.prems show ?thesis by simp
  next
    case False
    with Cons.prems obtain k' where "find_in cs f = Some k'" "k = Suc k'" by auto
    with Cons.IH show ?thesis by simp
  qed
qed

lemma string_find_bound:
  assumes "string_find s f i = Some j"
  shows "i \<le> j \<and> j + length f \<le> length s"
proof -
  from assms obtain k where k: "find_in (drop i s) f = Some k" "j = i + k" "i \<le> length s"
    by (auto simp: string_find_def split: if_splits)
  from find_in_bound [OF k(1)] k(2,3) show ?thesis by simp
qed

lemma find_step:
  assumes "i < length s" "take (length f) (drop i s) \<noteq> f"
  shows "string_find s f i = string_find s f (Suc i)"
proof -
  from assms(1) have d: "drop i s = s ! i # drop (Suc i) s"
    by (simp add: Cons_nth_drop_Suc)
  show ?thesis using assms
    by (cases "find_in (drop (Suc i) s) f") (simp_all add: string_find_def d)
qed

lemma find_match:
  assumes "i \<le> length s" "take (length f) (drop i s) = f"
  shows "string_find s f i = Some i"
  using assms by (cases "drop i s") (auto simp: string_find_def)

lemma find_end:
  assumes "length s \<le> i" "f \<noteq> []"
  shows "string_find s f i = None"
  using assms by (auto simp: string_find_def)

lemma far_step:
  assumes "i < length s" "take (length f) (drop i s) \<noteq> f"
  shows "FindAndReplace_loop s f r i = FindAndReplace_loop s f r (Suc i)"
  by (subst FindAndReplace_loop.simps, subst (2) FindAndReplace_loop.simps)
     (simp only: find_step [OF assms])

lemma far_match:
  assumes "i \<le> length s" "take (length f) (drop i s) = f"
  shows "FindAndReplace_loop s f r i =
         FindAndReplace_loop (take i s @ r @ drop (i + length f) s) f r (i + length r)"
  using assms
  by (subst FindAndReplace_loop.simps) (simp add: find_match string_replace_def)

lemma far_end:
  assumes "length s \<le> i" "f \<noteq> []"
  shows "FindAndReplace_loop s f r i = Some s"
  by (subst FindAndReplace_loop.simps) (simp add: find_end [OF assms])

lemma far_total:
  assumes "f \<noteq> []"
  shows "\<exists>t. FindAndReplace_loop s f r i = Some t"
  using assms
proof (induction "length s - i" arbitrary: s i rule: less_induct)
  case less
  show ?case
  proof (cases "string_find s f i")
    case None
    then show ?thesis by (subst FindAndReplace_loop.simps) simp
  next
    case (Some j)
    from string_find_bound [OF Some] have j: "i \<le> j" "j + length f \<le> length s"
      by simp_all
    let ?s' = "take j s @ r @ drop (j + length f) s"
    from j less.prems have "length ?s' - (j + length r) < length s - i"
      by (cases f) auto
    from less.hyps [OF this less.prems]
    obtain t where "FindAndReplace_loop ?s' f r (j + length r) = Some t" by blast
    with Some j show ?thesis
      by (subst FindAndReplace_loop.simps) (simp add: string_replace_def)
  qed
qed

lemma far_char:
  "FindAndReplace_loop (pre @ xs) [c] r (length pre) =
   Some (pre @ concat (map (\<lambda>x. if x = c then r else [x]) xs))"
proof (induction xs arbitrary: pre)
  case Nil
  show ?case by (simp add: far_end)
next
  case (Cons x xs)
  show ?case
  proof (cases "x = c")
    case True
    have "FindAndReplace_loop (pre @ x # xs) [c] r (length pre) =
          FindAndReplace_loop ((pre @ r) @ xs) [c] r (length (pre @ r))"
      using True by (subst far_match) simp_all
    then show ?thesis using True Cons.IH [of "pre @ r"] by simp
  next
    case False
    have "FindAndReplace_loop (pre @ x # xs) [c] r (length pre) =
          FindAndReplace_loop ((pre @ [x]) @ xs) [c] r (length (pre @ [x]))"
      using False by (subst far_step) simp_all
    then show ?thesis using False Cons.IH [of "pre @ [x]"] by simp
  qed
qed

lemma FindAndReplace_char:
  "FindAndReplace str [c] r = Some (concat (map (\<lambda>x. if x = c then r else [x]) str))"
  using far_char [of "[]" str c r] by (simp add: FindAndReplace_def)

lemma enc_no_head:
  assumes "b \<noteq> d"
  shows "take (Suc 0) (concat (map (\<lambda>x. if x = d then [b, d] else [x]) xs)) \<noteq> [d]"
  using assms by (cases xs) auto

lemma far_pair:
  "FindAndReplace_loop (pre @ concat (map (\<lambda>x. if x = d then [b, d] else [x]) xs)) [b, d] [d]
     (length pre) = Some (pre @ xs)"
proof (induction xs arbitrary: pre)
  case Nil
  show ?case by (simp add: far_end)
next
  case (Cons x xs)
  let ?enc = "\<lambda>ys. concat (map (\<lambda>x. if x = d then [b, d] else [x]) ys)"
  show ?case
  proof (cases "x = d")
    case True
    have "FindAndReplace_loop (pre @ ?enc (x # xs)) [b, d] [d] (length pre) =
          FindAndReplace_loop ((pre @ [d]) @ ?enc xs) [b, d] [d] (length (pre @ [d]))"
      using True by (subst far_match) simp_all
    then show ?thesis using True Cons.IH [of "pre @ [d]"] by simp
  next
    case False
    have nm: "take (length [b, d]) (drop (length pre) (pre @ ?enc (x # xs))) \<noteq> [b, d]"
    proof (cases "b = d")
      case True
      with False show ?thesis by simp
    next
      case bd: False
      from enc_no_head [OF bd, of xs] False show ?thesis by simp
    qed
    have "FindAndReplace_loop (pre @ ?enc (x # xs)) [b, d] [d] (length pre) =
          FindAndReplace_loop ((pre @ [x]) @ ?enc xs) [b, d] [d] (length (pre @ [x]))"
      using False by (subst far_step [OF _ nm]) simp_all
    then show ?thesis using False Cons.IH [of "pre @ [x]"] by simp
  qed
qed

lemma FindAndReplace_pair:
  "FindAndReplace (concat (map (\<lambda>x. if x = d then [b, d] else [x]) str)) [b, d] [d] = Some str"
  using far_pair [of "[]" d b str] by (simp add: FindAndReplace_def)

section \<open>What the formatters and one call of Log compute\<close>

lemma FormatParseable_escape_eq: "FormatParseable_escape str = Some (spec_escaped str)"
  by (simp add: FormatParseable_escape_def spec_escaped_def replace_each_def FindAndReplace_char)

lemma FormatParseable_loop_eq:
  "FormatParseable_loop components result =
   Some (result @ concat (map (\<lambda>str. spec_escaped str @ '','') components))"
  by (induction components arbitrary: result) (simp_all add: FormatParseable_escape_eq)

lemma map_subscript_fst: "fst (map_subscript m k) = (case m k of Some v \<Rightarrow> v | None \<Rightarrow> [])"
  by (simp add: map_subscript_def split: option.split)

lemma map_subscript_snd:
  "snd (map_subscript m k) = (case m k of Some v \<Rightarrow> m | None \<Rightarrow> m(k \<mapsto> []))"
  by (simp add: map_subscript_def split: option.split)

lemma FormatParseable_eq:
  "FormatParseable ec msg s =
   Some (spec_parseable_record ec (m_levels s) msg,
         s\<lparr>m_levels := snd (map_subscript (m_levels s) (level msg))\<rparr>)"
  by (simp add: FormatParseable_def FormatParseable_loop_eq spec_parseable_record_def
      spec_fields_def spec_level_name_def LogLocation_string_def pop_back_def
      map_subscript_fst [symmetric] split_beta Let_def butlast_append)

lemma record_after_subscript:
  "level msg = lvl \<Longrightarrow>
   spec_parseable_record ec (snd (map_subscript levels lvl)) msg =
   spec_parseable_record ec levels msg"
  by (simp add: spec_parseable_record_def spec_fields_def spec_level_name_def map_subscript_snd
      split: option.split)

lemma subscript_twice:
  "snd (map_subscript (snd (map_subscript m k)) k) = snd (map_subscript m k)"
  by (simp add: map_subscript_snd split: option.split)

lemma level_make [simp]: "level (make_LogMessage env lvl cd det loc originator depth) = lvl"
  by (simp add: make_LogMessage_def)

lemma ProcessCommon_eq:
  "ProcessCommon ec msg [] s =
   Some (case m_levelFormats s (level msg) of
           Some formatter \<Rightarrow>
             s\<lparr>captured := snd (formatter msg (captured s)),
               m_pending := m_pending s @ fst (formatter msg (captured s))\<rparr>
         | None \<Rightarrow> s\<lparr>m_levels := snd (map_subscript (m_levels s) (level msg)),
                      m_pending := m_pending s @ spec_parseable_record ec (m_levels s) msg\<rparr>)"
  by (simp add: ProcessCommon_def FormatParseable_eq call_formatter_def split_beta
      split: option.split)

lemma ProcessLog_eq:
  "ProcessLog msg s =
   (case m_levelFormats s (level msg) of
      Some formatter \<Rightarrow>
        s\<lparr>captured := snd (formatter msg (captured s)),
          cout := cout s @ fst (formatter msg (captured s))\<rparr>
    | None \<Rightarrow> s\<lparr>m_levels := snd (map_subscript (m_levels s) (level msg)),
                 cout := cout s @ fst (FormatDefault msg s)\<rparr>)"
  by (simp add: ProcessLog_def FormatDefault_def call_formatter_def split_beta Let_def
      split: option.split)

lemma Log_int_eq:
  "Log_int ec env lvl cd det loc originator depth s =
   Some (s\<lparr>m_levels :=
              (case m_levelFormats s lvl of
                 Some formatter \<Rightarrow> m_levels s
               | None \<Rightarrow> snd (map_subscript (m_levels s) lvl)),
            m_pending :=
              m_pending s
              @ spec_buffer_line ec s (make_LogMessage env lvl cd det loc originator depth),
            cout :=
              (if takes_console_path s lvl
               then cout s @
                    (case m_levelFormats s lvl of
                       Some formatter \<Rightarrow>
                         fst (formatter (make_LogMessage env lvl cd det loc originator depth)
                                (captured s))
                     | None \<Rightarrow>
                         fst (FormatDefault
                                (make_LogMessage env lvl cd det loc originator depth) s))
               else cout s),
            HAL_sent :=
              (if (lvl = kNIWarning \<or> lvl = kNIError) \<and> m_useNI s
               then HAL_sent s @
                    [\<lparr>isError = (lvl = kNIError), errorCode = cd, hal_details = c_str det,
                      hal_location = LogLocation_c_str loc,
                      hal_callStack = c_str (GetStackTrace env depth)\<rparr>]
               else HAL_sent s),
            captured :=
              (case m_levelFormats s lvl of
                 Some formatter \<Rightarrow>
                   snd (formatter (make_LogMessage env lvl cd det loc originator depth)
                          (spec_captured_at_buffer s
                             (make_LogMessage env lvl cd det loc originator depth)))
               | None \<Rightarrow> captured s)\<rparr>)"
proof (cases "lvl = kNIWarning \<or> lvl = kNIError")
  case True
  then show ?thesis
    by (cases "m_levelFormats s lvl")
       (auto simp: Log_int_def Let_def ProcessCommon_eq ProcessNILog_def spec_buffer_line_def
          spec_captured_at_buffer_def takes_console_path_def make_LogMessage_def)
next
  case False
  then show ?thesis
    by (cases "m_levelFormats s lvl"; cases "m_usestdout s")
       (simp_all add: Log_int_def Let_def ProcessCommon_eq ProcessLog_eq spec_buffer_line_def
          spec_captured_at_buffer_def takes_console_path_def record_after_subscript
          subscript_twice)
qed

lemma Log_int_Some: "\<exists>s'. Log_int ec env lvl cd det loc originator depth s = Some s'"
  by (simp add: Log_int_eq)

lemma Log_int_fields:
  assumes "Log_int ec env lvl cd det loc originator depth s = Some s'"
  shows "m_pending s' =
           m_pending s @ spec_buffer_line ec s (make_LogMessage env lvl cd det loc originator depth)"
    and "m_levels s' =
           (case m_levelFormats s lvl of
              Some formatter \<Rightarrow> m_levels s
            | None \<Rightarrow> snd (map_subscript (m_levels s) lvl))"
    and "m_levelFormats s' = m_levelFormats s"
    and "m_useNI s' = m_useNI s"
    and "m_usestdout s' = m_usestdout s"
    and "HAL_sent s' =
           (if (lvl = kNIWarning \<or> lvl = kNIError) \<and> m_useNI s
            then HAL_sent s @
                 [\<lparr>isError = (lvl = kNIError), errorCode = cd, hal_details = c_str det,
                   hal_location = LogLocation_c_str loc,
                   hal_callStack = c_str (GetStackTrace env depth)\<rparr>]
            else HAL_sent s)"
    and "cout s' =
           (if takes_console_path s lvl
            then cout s @
                 (case m_levelFormats s lvl of
                    Some formatter \<Rightarrow>
                      fst (formatter (make_LogMessage env lvl cd det loc originator depth)
                             (captured s))
                  | None \<Rightarrow>
                      fst (FormatDefault (make_LogMessage env lvl cd det loc originator depth) s))
            else cout s)"
    and "captured s' =
           (case m_levelFormats s lvl of
              Some formatter \<Rightarrow>
                snd (formatter (make_LogMessage env lvl cd det loc originator depth)
                       (spec_captured_at_buffer s
                          (make_LogMessage env lvl cd det loc originator depth)))
            | None \<Rightarrow> captured s)"
  using assms unfolding Log_int_eq by auto

lemmas eval_defs =
  spec_buffer_line_def spec_captured_at_buffer_def takes_console_path_def
  spec_parseable_record_def spec_fields_def spec_level_name_def
  spec_escaped_def replace_each_def ErrorCodes_Get_def ErrorCodes_GetCode_def
  make_LogMessage_def to_string_def to_milliseconds_def digit_char_def Logger_init_def
  atoi_def strtol_def long_to_int_def isspace_def isdigit_def digits_value_def
  kNIWarning_def kNIError_def kDEBUG_def kWARNING_def kERROR_def LogLocation_c_str_def
  ex_trace_def ex_env_def ex_loc_def ex_codes_def ex_formatter_def ex_counter_def

lemmas run_defs =
  Log_int_eq FormatDefault_def map_subscript_def
  ShortFilename_def string_find_def c_str_def LogLocation_string_def kBufLen_def
  AddFormatter_def AddLevel_def SetStdoutEnable_def SetNIEnable_def

lemma FormatParseable_names:
  "FormatParseable (ec\<lparr>m_names := names'\<rparr>) msg s = FormatParseable ec msg s"
  by (simp add: FormatParseable_def ErrorCodes_Get_def)

lemma Log_int_names:
  "Log_int (ec\<lparr>m_names := names'\<rparr>) env lvl cd det loc originator depth s =
   Log_int ec env lvl cd det loc originator depth s"
  by (simp add: Log_int_def ProcessCommon_def FormatParseable_names Let_def
      cong: option.case_cong)

lemma Log_str_eq:
  "Log_str ec env lvl codename det loc originator s =
   Log_int ec env lvl
     (case codename of
        None \<Rightarrow> 0
      | Some p \<Rightarrow>
          if atoi (long_bits env) (chars p) \<noteq> 0 then atoi (long_bits env) (chars p)
          else ErrorCodes_GetCode ec codename)
     det loc originator 3 s"
  by (simp add: Log_str_def Let_def split: option.split)

lemma spec_unescape_escaped: "spec_unescape (spec_escaped str) = Some str"
  by (simp add: spec_unescape_def spec_escaped_def replace_each_def FindAndReplace_pair)

lemma ErrorCodes_ctor_Timeout:
  "ErrorCodes_Get (ErrorCodes_ctor lit) (- 6) = ''A timeout has been exceeded''"
  by code_simp

lemma ErrorCodes_ctor_first_wins:
  "ErrorCodes_Get (ErrorCodes_ctor lit) (- 1) =
   ''Allocating module that is out of range or not found''"
  by code_simp

lemma atoi_wide_examples:
  "atoi 64 ''2147483648'' = - 2147483648"
  "atoi 64 ''-99999999999999999999'' = 0"
  "atoi 32 ''2147483648'' = 2147483647"
  "atoi 32 '' -12abc'' = - 12"
  by (simp_all add: atoi_def strtol_def long_to_int_def isspace_def isdigit_def digits_value_def)

section \<open>Sequences of calls and the console switch\<close>

lemma stateless_call:
  assumes "stateless_formatters s" "m_levelFormats s lvl = Some formatter"
  shows "snd (formatter msg c) = c"
proof -
  from assms(1) have "case m_levelFormats s lvl of None \<Rightarrow> True | Some f \<Rightarrow> stateless f"
    unfolding stateless_formatters_def by blast
  with assms(2) have "stateless formatter" by simp
  then show ?thesis by (simp add: stateless_def)
qed

lemma Log_int_stateless:
  assumes "stateless_formatters s" "Log_int ec env lvl cd det loc originator depth s = Some s'"
  shows "captured s' = captured s"
    and "stateless_formatters s'"
    and "m_pending s' =
           m_pending s
           @ (case m_levelFormats s lvl of
                Some formatter \<Rightarrow>
                  fst (formatter (make_LogMessage env lvl cd det loc originator depth) (captured s))
              | None \<Rightarrow>
                  spec_parseable_record ec (m_levels s)
                    (make_LogMessage env lvl cd det loc originator depth))"
proof -
  show c: "captured s' = captured s"
    using Log_int_fields(8) [OF assms(2)] stateless_call [OF assms(1)]
    by (simp add: spec_captured_at_buffer_def split: option.split)
  show "stateless_formatters s'"
    using assms(1) Log_int_fields(3) [OF assms(2)] by (simp add: stateless_formatters_def)
  show "m_pending s' =
           m_pending s
           @ (case m_levelFormats s lvl of
                Some formatter \<Rightarrow>
                  fst (formatter (make_LogMessage env lvl cd det loc originator depth) (captured s))
              | None \<Rightarrow>
                  spec_parseable_record ec (m_levels s)
                    (make_LogMessage env lvl cd det loc originator depth))"
    using Log_int_fields(1) [OF assms(2)] stateless_call [OF assms(1)]
    by (simp add: spec_buffer_line_def spec_captured_at_buffer_def split: option.split)
qed

lemma Log_int_same:
  assumes "same_but_stdout s t" "stateless_formatters s"
  shows "\<exists>s' t'. Log_int ec env lvl cd det loc originator depth s = Some s'
           \<and> Log_int ec env lvl cd det loc originator depth t = Some t'
           \<and> same_but_stdout s' t' \<and> stateless_formatters s'"
proof -
  obtain s' where s': "Log_int ec env lvl cd det loc originator depth s = Some s'"
    using Log_int_Some by blast
  obtain t' where t': "Log_int ec env lvl cd det loc originator depth t = Some t'"
    using Log_int_Some by blast
  from assms have st: "stateless_formatters t"
    by (simp add: same_but_stdout_def stateless_formatters_def)
  from assms(1) have "same_but_stdout s' t'"
    unfolding same_but_stdout_def
    by (simp add: Log_int_fields(2-4,6) [OF s'] Log_int_fields(2-4,6) [OF t']
        Log_int_stateless(1,3) [OF assms(2) s'] Log_int_stateless(1,3) [OF st t']
        cong: option.case_cong)
  with s' t' Log_int_stateless(2) [OF assms(2) s'] show ?thesis by blast
qed

lemma do_call_same:
  assumes "same_but_stdout s t" "stateless_formatters s" "adds_stateless c"
  shows "\<exists>s' t'. do_call ec c s = Some s' \<and> do_call ec c t = Some t'
           \<and> same_but_stdout s' t' \<and> stateless_formatters s'"
proof (cases c)
  case (Call_Log_int env lvl cd det loc originator depth)
  with Log_int_same [OF assms(1,2)] show ?thesis by simp
next
  case (Call_Log_str env lvl codename det loc originator)
  with Log_int_same [OF assms(1,2)] show ?thesis by (simp add: Log_str_eq)
next
  case (Call_SetStdoutEnable enabled)
  with assms show ?thesis
    by (simp add: same_but_stdout_def stateless_formatters_def SetStdoutEnable_def)
next
  case (Call_SetNIEnable enabled)
  with assms show ?thesis
    by (simp add: same_but_stdout_def stateless_formatters_def SetNIEnable_def)
next
  case (Call_AddLevel lvl name)
  with assms show ?thesis
    by (simp add: same_but_stdout_def stateless_formatters_def AddLevel_def)
next
  case (Call_AddFormatter lvl formatter)
  with assms show ?thesis
    by (simp add: same_but_stdout_def stateless_formatters_def AddFormatter_def)
qed

lemma run_same:
  "same_but_stdout s t \<Longrightarrow> stateless_formatters s \<Longrightarrow> list_all adds_stateless calls \<Longrightarrow>
   \<exists>s' t'. run ec calls s = Some s' \<and> run ec calls t = Some t' \<and> same_but_stdout s' t'"
proof (induction calls arbitrary: s t)
  case Nil
  then show ?case by simp
next
  case (Cons c calls)
  from Cons.prems(3) have c: "adds_stateless c" "list_all adds_stateless calls" by simp_all
  from do_call_same [OF Cons.prems(1,2) c(1), of ec]
  obtain s1 t1 where st: "do_call ec c s = Some s1" "do_call ec c t = Some t1"
    "same_but_stdout s1 t1" "stateless_formatters s1" by blast
  from Cons.IH [OF st(3,4) c(2)] st(1,2) show ?case by simp
qed

lemma do_call_silent:
  assumes "\<not> m_usestdout s" "\<not> enables_stdout c" "do_call ec c s = Some s'"
  shows "cout s' = cout s \<and> \<not> m_usestdout s'"
proof (cases c)
  case (Call_Log_int env lvl cd det loc originator depth)
  with assms(3) have l: "Log_int ec env lvl cd det loc originator depth s = Some s'" by simp
  from Log_int_fields(5,7) [OF l] assms(1) show ?thesis by (simp add: takes_console_path_def)
next
  case (Call_Log_str env lvl codename det loc originator)
  with assms(3) obtain cd where l: "Log_int ec env lvl cd det loc originator 3 s = Some s'"
    by (simp add: Log_str_eq)
  from Log_int_fields(5,7) [OF l] assms(1) show ?thesis by (simp add: takes_console_path_def)
next
  case (Call_SetStdoutEnable enabled)
  with assms show ?thesis by (auto simp: SetStdoutEnable_def)
next
  case (Call_SetNIEnable enabled)
  with assms show ?thesis by (auto simp: SetNIEnable_def)
next
  case (Call_AddLevel lvl name)
  with assms show ?thesis by (auto simp: AddLevel_def)
next
  case (Call_AddFormatter lvl formatter)
  with assms show ?thesis by (auto simp: AddFormatter_def)
qed

lemma run_silent:
  "\<not> m_usestdout s \<Longrightarrow> list_all (\<lambda>c. \<not> enables_stdout c) calls \<Longrightarrow>
   run ec calls s = Some s' \<Longrightarrow> cout s' = cout s"
proof (induction calls arbitrary: s)
  case Nil
  then show ?case by simp
next
  case (Cons c calls)
  from Cons.prems(3) obtain s1 where s1: "do_call ec c s = Some s1" "run ec calls s1 = Some s'"
    by (auto split: bind_splits)
  from do_call_silent [OF Cons.prems(1) _ s1(1)] Cons.prems(2)
  have "cout s1 = cout s" "\<not> m_usestdout s1" by simp_all
  with Cons.IH [OF _ _ s1(2)] Cons.prems(2) show ?case by simp
qed

section \<open>The claims\<close>

text \<open>
  C1. A call of \<^verbatim>\<open>Log\<close> with a non-null code name returns, and the message it logs carries
  the code that \<^verbatim>\<open>atoi\<close> reads from the name when that is not zero, and
  \<^verbatim>\<open>ErrorCodes::GetCode\<close> of the name otherwise: the buffer receives the line for the
  message with this code (without a formatter for the level, the parseable record whose
  third field is this code and whose fourth is its message), and the hardware channel, when
  it is called, this code. In the first case the registry of names is not consulted: the
  call does the same with any other registry of names. \<^verbatim>\<open>GetCode\<close> is 0 for a name that is
  not registered.
\<close>

theorem Log_str_code:
  "(\<exists>s'. Log_str ec env lvl (Some p) det loc originator s = Some s'
      \<and> m_pending s' =
          m_pending s
          @ spec_buffer_line ec s
              (make_LogMessage env lvl
                 (if atoi (long_bits env) (chars p) \<noteq> 0 then atoi (long_bits env) (chars p)
                  else ErrorCodes_GetCode ec (Some p))
                 det loc originator 3)
      \<and> HAL_sent s' =
          (if (lvl = kNIWarning \<or> lvl = kNIError) \<and> m_useNI s
           then HAL_sent s @
                [\<lparr>isError = (lvl = kNIError),
                  errorCode =
                    (if atoi (long_bits env) (chars p) \<noteq> 0 then atoi (long_bits env) (chars p)
                     else ErrorCodes_GetCode ec (Some p)),
                  hal_details = c_str det, hal_location = Dangling,
                  hal_callStack = c_str (GetStackTrace env 3)\<rparr>]
           else HAL_sent s)
      \<and> (m_levelFormats s lvl = None \<longrightarrow>
           m_pending s' =
             m_pending s
             @ join_with '',''
                 (map spec_escaped
                    [to_string lvl,
                     spec_level_name (m_levels s) lvl,
                     to_string
                       (if atoi (long_bits env) (chars p) \<noteq> 0
                        then atoi (long_bits env) (chars p)
                        else ErrorCodes_GetCode ec (Some p)),
                     ErrorCodes_Get ec
                       (if atoi (long_bits env) (chars p) \<noteq> 0
                        then atoi (long_bits env) (chars p)
                        else ErrorCodes_GetCode ec (Some p)),
                     LogLocation_string loc,
                     to_string (to_milliseconds (now env)),
                     GetStackTrace env 3,
                     originator,
                     det])
             @ [CHR '';'', CHR 0x0A]))
   \<and> code (make_LogMessage env lvl
              (if atoi (long_bits env) (chars p) \<noteq> 0 then atoi (long_bits env) (chars p)
               else ErrorCodes_GetCode ec (Some p))
              det loc originator 3) =
       (if atoi (long_bits env) (chars p) \<noteq> 0 then atoi (long_bits env) (chars p)
        else ErrorCodes_GetCode ec (Some p))
   \<and> (atoi (long_bits env) (chars p) \<noteq> 0 \<longrightarrow>
        Log_str (ec\<lparr>m_names := names'\<rparr>) env lvl (Some p) det loc originator s =
        Log_str ec env lvl (Some p) det loc originator s)
   \<and> (m_names ec (addr p) = None \<longrightarrow> ErrorCodes_GetCode ec (Some p) = 0)"
proof -
  let ?cd = "if atoi (long_bits env) (chars p) \<noteq> 0 then atoi (long_bits env) (chars p)
             else ErrorCodes_GetCode ec (Some p)"
  have eq: "Log_str ec env lvl (Some p) det loc originator s =
            Log_int ec env lvl ?cd det loc originator 3 s"
    by (simp add: Log_str_eq)
  obtain s' where s': "Log_int ec env lvl ?cd det loc originator 3 s = Some s'"
    using Log_int_Some by blast
  have rec: "m_levelFormats s lvl = None \<Longrightarrow>
        spec_buffer_line ec s (make_LogMessage env lvl ?cd det loc originator 3) =
        join_with '',''
          (map spec_escaped
             [to_string lvl, spec_level_name (m_levels s) lvl, to_string ?cd,
              ErrorCodes_Get ec ?cd, LogLocation_string loc,
              to_string (to_milliseconds (now env)), GetStackTrace env 3, originator, det])
        @ [CHR '';'', CHR 0x0A]"
    by (simp add: spec_buffer_line_def spec_parseable_record_def spec_fields_def
        make_LogMessage_def LogLocation_string_def)
  have first: "\<exists>s'. Log_str ec env lvl (Some p) det loc originator s = Some s'
      \<and> m_pending s' =
          m_pending s @ spec_buffer_line ec s (make_LogMessage env lvl ?cd det loc originator 3)
      \<and> HAL_sent s' =
          (if (lvl = kNIWarning \<or> lvl = kNIError) \<and> m_useNI s
           then HAL_sent s @
                [\<lparr>isError = (lvl = kNIError), errorCode = ?cd,
                  hal_details = c_str det, hal_location = Dangling,
                  hal_callStack = c_str (GetStackTrace env 3)\<rparr>]
           else HAL_sent s)
      \<and> (m_levelFormats s lvl = None \<longrightarrow>
           m_pending s' =
             m_pending s
             @ join_with '',''
                 (map spec_escaped
                    [to_string lvl, spec_level_name (m_levels s) lvl, to_string ?cd,
                     ErrorCodes_Get ec ?cd, LogLocation_string loc,
                     to_string (to_milliseconds (now env)), GetStackTrace env 3, originator,
                     det])
             @ [CHR '';'', CHR 0x0A])"
    unfolding eq
    using s' Log_int_fields(1,6) [OF s'] rec
    by (simp add: LogLocation_c_str_def)
  have names: "atoi (long_bits env) (chars p) \<noteq> 0 \<Longrightarrow>
        Log_str (ec\<lparr>m_names := names'\<rparr>) env lvl (Some p) det loc originator s =
        Log_str ec env lvl (Some p) det loc originator s"
    by (simp add: Log_str_eq Log_int_names)
  have unknown: "m_names ec (addr p) = None \<Longrightarrow> ErrorCodes_GetCode ec (Some p) = 0"
    by (simp add: ErrorCodes_GetCode_def)
  have cd: "code (make_LogMessage env lvl ?cd det loc originator 3) = ?cd"
    by (simp add: make_LogMessage_def)
  from first names unknown cd show ?thesis by blast
qed

theorem Log_str_code_witness:
  "atoi (long_bits ex_env) (chars (CStr 4096 ''100'')) = 100
   \<and> (\<exists>s'. Log_str ex_codes ex_env 2 (Some (CStr 4096 ''100'')) ''x'' ex_loc []
              (Logger_init (0::nat)) = Some s'
        \<and> m_pending s' = ''2,WARNING,100,,a.cpp:f:10,1234,trace,,x;'' @ [CHR 0x0A]
        \<and> HAL_sent s' =
             [\<lparr>isError = False, errorCode = 100, hal_details = ''x'', hal_location = Dangling,
               hal_callStack = ''trace''\<rparr>])
   \<and> Log_str (ex_codes\<lparr>m_names := Map.empty\<rparr>) ex_env 2 (Some (CStr 4096 ''100'')) ''x'' ex_loc []
       (Logger_init (0::nat)) =
     Log_str ex_codes ex_env 2 (Some (CStr 4096 ''100'')) ''x'' ex_loc [] (Logger_init (0::nat))
   \<and> atoi (long_bits ex_env) (chars (CStr 4096 ''Timeout'')) = 0
   \<and> (\<exists>s'. Log_str ex_codes ex_env 2 (Some (CStr 4096 ''Timeout'')) ''x'' ex_loc []
              (Logger_init (0::nat)) = Some s'
        \<and> m_pending s' =
             ''2,WARNING,-6,A timeout has been exceeded,a.cpp:f:10,1234,trace,,x;'' @ [CHR 0x0A]
        \<and> HAL_sent s' =
             [\<lparr>isError = False, errorCode = - 6, hal_details = ''x'', hal_location = Dangling,
               hal_callStack = ''trace''\<rparr>])
   \<and> m_names ex_codes (addr (CStr 8192 ''Timeout'')) = None
   \<and> (\<exists>s'. Log_str ex_codes ex_env 2 (Some (CStr 8192 ''Timeout'')) ''x'' ex_loc []
              (Logger_init (0::nat)) = Some s'
        \<and> m_pending s' = ''2,WARNING,0,,a.cpp:f:10,1234,trace,,x;'' @ [CHR 0x0A])"
  using Log_str_code [of ex_codes ex_env 2 "CStr 4096 ''100''" "''x''" ex_loc "[]"
      "Logger_init (0::nat)" Map.empty]
  by (simp add: Log_str_eq run_defs eval_defs)

text \<open>
  C2. For every message, \<^verbatim>\<open>FormatParseable\<close> returns one record: nine escaped fields in
  this order (the level as a number, the level name, the code as a number, the message of
  the code from \<^verbatim>\<open>ErrorCodes::Get\<close>, the location as file, function and line separated
  by colons, the time stamp in whole milliseconds, the stack trace, the originator, the
  details), joined with commas and ended by a semicolon and a newline.
\<close>

theorem FormatParseable_record:
  "map_option fst (FormatParseable ec msg s) =
   Some (join_with '',''
           (map spec_escaped
              [to_string (level msg),
               spec_level_name (m_levels s) (level msg),
               to_string (code msg),
               ErrorCodes_Get ec (code msg),
               file (location msg) @ '':'' @ func (location msg) @ '':''
                 @ to_string (line (location msg)),
               to_string (to_milliseconds (timestamp msg)),
               stacktrace msg,
               originatingObject msg,
               details msg])
         @ [CHR '';'', CHR 0x0A])"
  by (simp add: FormatParseable_eq spec_parseable_record_def spec_fields_def)

theorem FormatParseable_record_witness:
  "map_option fst
     (FormatParseable ex_codes
        (make_LogMessage ex_env 1 (- 6) ''connection lost'' ex_loc ''SensorX'' 3)
        (Logger_init (0::nat))) =
   Some (''1,DEBUG,-6,A timeout has been exceeded,a.cpp:f:10,1234,trace,SensorX,connection lost;''
         @ [CHR 0x0A])
   \<and> map_option fst
     (FormatParseable ex_codes
        (make_LogMessage ex_env 42 7 (''a,b;c'' @ [CHR 0x5C] @ ''d'') ex_loc '''' 3)
        (Logger_init (0::nat))) =
   Some (''42,,7,,a.cpp:f:10,1234,trace,,a'' @ [CHR 0x5C] @ '',b'' @ [CHR 0x5C] @ '';c''
         @ [CHR 0x5C, CHR 0x5C] @ ''d;'' @ [CHR 0x0A])"
  using FormatParseable_record [of ex_codes
      "make_LogMessage ex_env 1 (- 6) ''connection lost'' ex_loc ''SensorX'' 3"
      "Logger_init (0::nat)"]
    FormatParseable_record [of ex_codes
      "make_LogMessage ex_env 42 7 (''a,b;c'' @ [CHR 0x5C] @ ''d'') ex_loc '''' 3"
      "Logger_init (0::nat)"]
  by (simp add: eval_defs)

text \<open>
  C3. For every details string, the three replacements of \<^verbatim>\<open>FormatParseable\<close> (backslash,
  then comma, then semicolon) followed by the three reverse substitutions in reverse order
  give the string back.
\<close>

theorem escape_roundtrip:
  "Option.bind (FormatParseable_escape det) spec_unescape = Some det"
  by (simp add: FormatParseable_escape_eq spec_unescape_escaped)

theorem escape_roundtrip_witness:
  "FormatParseable_escape [CHR ''a'', CHR 0x5C, CHR '','', CHR '';'', CHR 0x5C]
     = Some [CHR ''a'', CHR 0x5C, CHR 0x5C, CHR 0x5C, CHR '','', CHR 0x5C, CHR '';'', CHR 0x5C, CHR 0x5C]
   \<and> spec_unescape [CHR ''a'', CHR 0x5C, CHR 0x5C, CHR 0x5C, CHR '','', CHR 0x5C, CHR '';'', CHR 0x5C, CHR 0x5C]
     = Some [CHR ''a'', CHR 0x5C, CHR '','', CHR '';'', CHR 0x5C]"
  using escape_roundtrip [of "[CHR ''a'', CHR 0x5C, CHR '','', CHR '';'', CHR 0x5C]"]
  by (simp add: FormatParseable_escape_eq spec_escaped_def replace_each_def)

text \<open>
  C4. As stated (the hardware-channel values are disjoint from the generic levels, and no
  generic level reaches the reporting sink), the claim fails: \<^verbatim>\<open>kWARNING\<close> is
  \<^verbatim>\<open>kNIWarning\<close>, and a call of \<^verbatim>\<open>Log\<close> at \<^verbatim>\<open>kWARNING\<close> on the initial logger calls
  \<^verbatim>\<open>HALSendError\<close> and writes nothing to the console.
\<close>

theorem hardware_levels_collide_counterexample:
  "kWARNING = kNIWarning \<and> kERROR = kNIError
   \<and> map_option HAL_sent
        (Log_int ex_codes ex_env kWARNING 0 ''x'' ex_loc [] 3 (Logger_init (0::nat))) =
       Some [\<lparr>isError = False, errorCode = 0, hal_details = ''x'',
              hal_location = Dangling, hal_callStack = ''trace''\<rparr>]
   \<and> map_option cout
        (Log_int ex_codes ex_env kWARNING 0 ''x'' ex_loc [] 3 (Logger_init (0::nat))) = Some []"
  by (simp add: Log_int_eq eval_defs c_str_def)

text \<open>
  C4, amended. The two hardware-channel values are 2 and 3, the values of \<^verbatim>\<open>kWARNING\<close> and
  \<^verbatim>\<open>kERROR\<close>; \<^verbatim>\<open>kDEBUG\<close> is neither. A call of \<^verbatim>\<open>Log\<close> at a level other than these two
  never calls the reporting sink (and writes to the console when the console is enabled);
  a call at one of the two never writes to the console (and calls the sink once when the
  hardware channel is enabled, with a location pointer that dangles).
\<close>

theorem Log_paths:
  "kNIWarning = kWARNING \<and> kNIError = kERROR \<and> kDEBUG \<noteq> kNIWarning \<and> kDEBUG \<noteq> kNIError
   \<and> (\<exists>s'. Log_int ec env lvl cd det loc originator depth s = Some s'
          \<and> HAL_sent s' =
              (if lvl = kNIWarning \<or> lvl = kNIError then
                 (if m_useNI s then
                    HAL_sent s @
                    [\<lparr>isError = (lvl = kNIError), errorCode = cd, hal_details = c_str det,
                      hal_location = Dangling,
                      hal_callStack = c_str (GetStackTrace env depth)\<rparr>]
                  else HAL_sent s)
               else HAL_sent s)
          \<and> cout s' =
              (if lvl = kNIWarning \<or> lvl = kNIError then cout s
               else if m_usestdout s then
                 cout s @
                 (case m_levelFormats s lvl of
                    Some formatter \<Rightarrow>
                      fst (formatter (make_LogMessage env lvl cd det loc originator depth)
                             (captured s))
                  | None \<Rightarrow>
                      fst (FormatDefault (make_LogMessage env lvl cd det loc originator depth) s))
               else cout s))"
  by (simp add: Log_int_eq takes_console_path_def LogLocation_c_str_def
      kNIWarning_def kNIError_def kDEBUG_def kWARNING_def kERROR_def)

theorem Log_paths_witness:
  "(\<exists>s'. Log_int ex_codes ex_env 1 0 ''x'' ex_loc [] 3 (Logger_init (0::nat)) = Some s'
        \<and> HAL_sent s' = []
        \<and> cout s' = ''[DEBUG]: From a.cpp:f:10: x'' @ [CHR 0x0A])
   \<and> (\<exists>s'. Log_int ex_codes ex_env 3 0 ''x'' ex_loc [] 3 (Logger_init (0::nat)) = Some s'
        \<and> HAL_sent s' =
              [\<lparr>isError = True, errorCode = 0, hal_details = ''x'',
                hal_location = Dangling, hal_callStack = ''trace''\<rparr>]
        \<and> cout s' = [])"
  using Log_paths [of ex_codes ex_env 1 0 "''x''" ex_loc "[]" 3 "Logger_init (0::nat)"]
    Log_paths [of ex_codes ex_env 3 0 "''x''" ex_loc "[]" 3 "Logger_init (0::nat)"]
  by (simp add: eval_defs c_str_def LogLocation_string_def FormatDefault_def map_subscript_def
      ShortFilename_def string_find_def kBufLen_def)

text \<open>
  C5. As stated (for every configuration of formatters), the claim fails for a formatter
  with state: a call of \<^verbatim>\<open>Log\<close> on the console path calls the formatter of the level once
  for the console and once more for the buffer, so a formatter that counts its calls puts 2
  in the buffer when the console is enabled and 1 when it is disabled.
\<close>

theorem stateful_formatter_counterexample:
  "map_option m_pending
     (run ex_codes [Call_Log_int ex_env 1 0 ''x'' ex_loc [] 3]
        ((AddFormatter 1 ex_counter (Logger_init 1))\<lparr>m_usestdout := True\<rparr>)) = Some ''2''
   \<and> map_option m_pending
     (run ex_codes [Call_Log_int ex_env 1 0 ''x'' ex_loc [] 3]
        ((AddFormatter 1 ex_counter (Logger_init 1))\<lparr>m_usestdout := False\<rparr>)) = Some ''1''"
  by (simp add: run_defs eval_defs)

text \<open>
  C5, amended. Take a state of the logger whose registered formatters are without state,
  any error codes, and any sequence of calls (of \<^verbatim>\<open>Log\<close> with either kind of code, of the
  switches, of \<^verbatim>\<open>AddLevel\<close>, and of \<^verbatim>\<open>AddFormatter\<close> with formatters without state), and
  run the sequence twice, once from the state with the console enabled and once with it
  disabled. Both runs return, and they end with the same pending buffer (and the same
  reports to the hardware channel and the same level names). If no call of the sequence
  enables the console, the run that starts with the console disabled writes nothing to it.
\<close>

theorem stdout_switch_noninterference:
  "stateless_formatters s \<Longrightarrow> list_all adds_stateless calls \<Longrightarrow>
   \<exists>s' t'. run ec calls (s\<lparr>m_usestdout := True\<rparr>) = Some s'
     \<and> run ec calls (s\<lparr>m_usestdout := False\<rparr>) = Some t'
     \<and> m_pending s' = m_pending t'
     \<and> HAL_sent s' = HAL_sent t'
     \<and> m_levels s' = m_levels t'
     \<and> (list_all (\<lambda>c. \<not> enables_stdout c) calls \<longrightarrow> cout t' = cout s)"
proof -
  assume a: "stateless_formatters s" "list_all adds_stateless calls"
  have sb: "same_but_stdout (s\<lparr>m_usestdout := True\<rparr>) (s\<lparr>m_usestdout := False\<rparr>)"
    by (simp add: same_but_stdout_def)
  from a(1) have sf: "stateless_formatters (s\<lparr>m_usestdout := True\<rparr>)"
    by (simp add: stateless_formatters_def)
  from run_same [OF sb sf a(2), of ec]
  obtain s' t' where st: "run ec calls (s\<lparr>m_usestdout := True\<rparr>) = Some s'"
    "run ec calls (s\<lparr>m_usestdout := False\<rparr>) = Some t'" "same_but_stdout s' t'"
    by blast
  have "cout t' = cout s" if "list_all (\<lambda>c. \<not> enables_stdout c) calls"
    using run_silent [OF _ that st(2)] by simp
  with st show ?thesis by (simp add: same_but_stdout_def)
qed

theorem stdout_switch_noninterference_witness:
  "stateless_formatters (Logger_init (0::nat))
   \<and> list_all adds_stateless
        [Call_AddFormatter 7 ex_formatter, Call_Log_int ex_env 1 0 ''x'' ex_loc [] 3,
         Call_Log_int ex_env 7 0 ''y'' ex_loc [] 3, Call_Log_int ex_env 2 0 ''z'' ex_loc [] 3]
   \<and> list_all (\<lambda>c. \<not> enables_stdout c)
        [Call_AddFormatter 7 ex_formatter, Call_Log_int ex_env 1 0 ''x'' ex_loc [] 3,
         Call_Log_int ex_env 7 0 ''y'' ex_loc [] 3, Call_Log_int ex_env 2 0 ''z'' ex_loc [] 3]
   \<and> (\<exists>s' t'.
        run ex_codes
          [Call_AddFormatter 7 ex_formatter, Call_Log_int ex_env 1 0 ''x'' ex_loc [] 3,
           Call_Log_int ex_env 7 0 ''y'' ex_loc [] 3, Call_Log_int ex_env 2 0 ''z'' ex_loc [] 3]
          ((Logger_init (0::nat))\<lparr>m_usestdout := True\<rparr>) = Some s'
        \<and> run ex_codes
          [Call_AddFormatter 7 ex_formatter, Call_Log_int ex_env 1 0 ''x'' ex_loc [] 3,
           Call_Log_int ex_env 7 0 ''y'' ex_loc [] 3, Call_Log_int ex_env 2 0 ''z'' ex_loc [] 3]
          ((Logger_init (0::nat))\<lparr>m_usestdout := False\<rparr>) = Some t'
        \<and> m_pending s' =
            ''1,DEBUG,0,,a.cpp:f:10,1234,trace,,x;'' @ [CHR 0x0A]
            @ ''custom''
            @ ''2,WARNING,0,,a.cpp:f:10,1234,trace,,z;'' @ [CHR 0x0A]
        \<and> m_pending t' = m_pending s'
        \<and> cout s' = ''[DEBUG]: From a.cpp:f:10: x'' @ [CHR 0x0A] @ ''custom''
        \<and> cout t' = [])"
  using stdout_switch_noninterference [of "Logger_init (0::nat)"
      "[Call_AddFormatter 7 ex_formatter, Call_Log_int ex_env 1 0 ''x'' ex_loc [] 3,
        Call_Log_int ex_env 7 0 ''y'' ex_loc [] 3, Call_Log_int ex_env 2 0 ''z'' ex_loc [] 3]"
      ex_codes]
  by (simp add: run_defs eval_defs stateless_formatters_def stateless_def)

text \<open>
  C6. Every call of \<^verbatim>\<open>Log\<close>, with an integer code or with a code name, returns, and the
  pending buffer is then its previous value followed by exactly the one line that the call
  owes it: the output of the formatter registered for the level, or the parseable record.
  This holds at every level and for every setting of the two switches.
\<close>

theorem Log_appends_one_line:
  "(\<exists>s'. Log_int ec env lvl cd det loc originator depth s = Some s'
         \<and> m_pending s' =
           m_pending s @ spec_buffer_line ec s (make_LogMessage env lvl cd det loc originator depth))
   \<and> (\<exists>s'. Log_str ec env lvl codename det loc originator s = Some s'
         \<and> m_pending s' =
           m_pending s
           @ spec_buffer_line ec s
               (make_LogMessage env lvl
                  (case codename of
                     None \<Rightarrow> 0
                   | Some p \<Rightarrow>
                       if atoi (long_bits env) (chars p) \<noteq> 0
                       then atoi (long_bits env) (chars p)
                       else ErrorCodes_GetCode ec codename)
                  det loc originator 3))"
  by (simp add: Log_str_eq Log_int_eq)

theorem Log_appends_one_line_witness:
  "(\<exists>s'. Log_int ex_codes ex_env 1 0 ''x'' ex_loc [] 3 (Logger_init (0::nat)) = Some s'
        \<and> m_pending s' = ''1,DEBUG,0,,a.cpp:f:10,1234,trace,,x;'' @ [CHR 0x0A])
   \<and> (\<exists>s'. Log_str ex_codes ex_env 1 (Some (CStr 4096 ''Timeout'')) ''x'' ex_loc []
              (Logger_init (0::nat)) = Some s'
        \<and> m_pending s' =
            ''1,DEBUG,-6,A timeout has been exceeded,a.cpp:f:10,1234,trace,,x;'' @ [CHR 0x0A])"
  using Log_appends_one_line [of ex_codes ex_env 1 0 "''x''" ex_loc "[]" 3 "Logger_init (0::nat)"
      "Some (CStr 4096 ''Timeout'')"]
  by (simp add: eval_defs)

text \<open>
  C7. As stated (every level without a name uses the default formatters), the claim fails
  for a level that has a formatter of its own but no name: the buffer and the console
  receive the output of that formatter, not the parseable record and the default line.
\<close>

theorem unregistered_level_custom_formatter_counterexample:
  "m_levels (AddFormatter 42 ex_formatter (Logger_init 0)) 42 = None
   \<and> map_option m_pending
        (Log_int ex_codes ex_env 42 0 ''x'' ex_loc [] 3
           (AddFormatter 42 ex_formatter (Logger_init 0)))
      = Some ''custom''
   \<and> map_option cout
        (Log_int ex_codes ex_env 42 0 ''x'' ex_loc [] 3
           (AddFormatter 42 ex_formatter (Logger_init 0)))
      = Some ''custom''
   \<and> map_option fst
        (FormatParseable ex_codes (make_LogMessage ex_env 42 0 ''x'' ex_loc [] 3)
           (AddFormatter 42 ex_formatter (Logger_init 0)))
      = Some (''42,,0,,a.cpp:f:10,1234,trace,,x;'' @ [CHR 0x0A])
   \<and> fst (FormatDefault (make_LogMessage ex_env 42 0 ''x'' ex_loc [] 3)
           (AddFormatter 42 ex_formatter (Logger_init 0)))
      = ''[]: From a.cpp:f:10: x'' @ [CHR 0x0A]"
  by (simp add: run_defs eval_defs FormatParseable_eq)

text \<open>
  C7, amended. For every level without an entry in the registry of level names, a call of
  \<^verbatim>\<open>Log\<close> at that level returns, and the second field of the parseable record is empty.
  If the level has no registered formatter either, the default formatters are used: the
  buffer receives that parseable record, and the console, when the call writes to it,
  receives the default line with an empty level name. If the level has a registered
  formatter, the buffer and the console receive the output of that formatter.
\<close>

theorem unregistered_level_defaults:
  "m_levels s lvl = None \<Longrightarrow>
   (\<exists>s'. Log_int ec env lvl cd det loc originator depth s = Some s')
   \<and> map_option fst
        (FormatParseable ec (make_LogMessage env lvl cd det loc originator depth) s) =
      Some (spec_escaped (to_string lvl) @ '','' @ [] @ '',''
            @ join_with '',''
                (map spec_escaped
                   [to_string cd, ErrorCodes_Get ec cd, LogLocation_string loc,
                    to_string (to_milliseconds (now env)), GetStackTrace env depth,
                    originator, det])
            @ [CHR '';'', CHR 0x0A])
   \<and> (m_levelFormats s lvl = None \<longrightarrow>
        (\<exists>s'. Log_int ec env lvl cd det loc originator depth s = Some s'
           \<and> m_pending s' =
               m_pending s @ spec_escaped (to_string lvl) @ '','' @ [] @ '',''
               @ join_with '',''
                   (map spec_escaped
                      [to_string cd, ErrorCodes_Get ec cd, LogLocation_string loc,
                       to_string (to_milliseconds (now env)), GetStackTrace env depth,
                       originator, det])
               @ [CHR '';'', CHR 0x0A]
           \<and> cout s' =
               (if lvl = kNIWarning \<or> lvl = kNIError \<or> \<not> m_usestdout s then cout s
                else cout s @
                     take 511
                       (''[]: From '' @ c_str (ShortFilename (LogLocation_string loc))
                        @ '': '' @ c_str det @ [CHR 0x0A]))))
   \<and> (\<forall>formatter. m_levelFormats s lvl = Some formatter \<longrightarrow>
        (\<exists>s'. Log_int ec env lvl cd det loc originator depth s = Some s'
           \<and> m_pending s' =
               m_pending s
               @ fst (formatter (make_LogMessage env lvl cd det loc originator depth)
                        (spec_captured_at_buffer s
                           (make_LogMessage env lvl cd det loc originator depth)))
           \<and> cout s' =
               (if lvl = kNIWarning \<or> lvl = kNIError \<or> \<not> m_usestdout s then cout s
                else cout s
                     @ fst (formatter (make_LogMessage env lvl cd det loc originator depth)
                              (captured s)))))"
proof -
  assume lv: "m_levels s lvl = None"
  obtain s' where s': "Log_int ec env lvl cd det loc originator depth s = Some s'"
    using Log_int_Some by blast
  have rec: "spec_parseable_record ec (m_levels s)
               (make_LogMessage env lvl cd det loc originator depth) =
             spec_escaped (to_string lvl) @ '','' @ [] @ '',''
             @ join_with '',''
                 (map spec_escaped
                    [to_string cd, ErrorCodes_Get ec cd, LogLocation_string loc,
                     to_string (to_milliseconds (now env)), GetStackTrace env depth,
                     originator, det])
             @ [CHR '';'', CHR 0x0A]"
    using lv
    by (simp add: spec_parseable_record_def spec_fields_def spec_level_name_def
        make_LogMessage_def LogLocation_string_def spec_escaped_def replace_each_def)
  have dflt: "fst (FormatDefault (make_LogMessage env lvl cd det loc originator depth) s) =
              take 511 (''[]: From '' @ c_str (ShortFilename (LogLocation_string loc))
                        @ '': '' @ c_str det @ [CHR 0x0A])"
    using lv
    by (simp add: FormatDefault_def map_subscript_def kBufLen_def c_str_def make_LogMessage_def)
  from Log_int_fields(1,7) [OF s'] s' rec dflt show ?thesis
    by (auto simp: FormatParseable_eq spec_buffer_line_def takes_console_path_def)
qed

theorem unregistered_level_defaults_witness:
  "m_levels (Logger_init (0::nat)) 42 = None \<and> m_levelFormats (Logger_init (0::nat)) 42 = None
   \<and> map_option fst
        (FormatParseable ex_codes (make_LogMessage ex_env 42 0 ''x'' ex_loc [] 3)
           (Logger_init (0::nat)))
      = Some (''42,,0,,a.cpp:f:10,1234,trace,,x;'' @ [CHR 0x0A])
   \<and> (\<exists>s'. Log_int ex_codes ex_env 42 0 ''x'' ex_loc [] 3 (Logger_init (0::nat)) = Some s'
          \<and> m_pending s' = ''42,,0,,a.cpp:f:10,1234,trace,,x;'' @ [CHR 0x0A]
          \<and> cout s' = ''[]: From a.cpp:f:10: x'' @ [CHR 0x0A])"
  using unregistered_level_defaults [of "Logger_init (0::nat)" 42 ex_codes ex_env 0 "''x''" ex_loc
      "[]" 3]
  by (simp add: run_defs eval_defs FormatParseable_eq)

text \<open>
  C8. As stated (no entry is ever renamed), the claim fails when \<^verbatim>\<open>AddLevel\<close> is called
  with a level that already has a name: the seeded name of level 1 is replaced.
\<close>

theorem AddLevel_renames_counterexample:
  "m_levels (Logger_init (0::nat)) 1 = Some ''DEBUG''
   \<and> m_levels (AddLevel 1 ''TRACE'' (Logger_init (0::nat))) 1 \<noteq> Some ''DEBUG''"
  by (simp add: AddLevel_def Logger_init_def)

text \<open>
  C8, amended. Every entry of the registry for a level other than the one passed to
  \<^verbatim>\<open>AddLevel\<close> (or whose name is the one passed) is still there after the call, and the
  level passed has the name passed.
\<close>

theorem AddLevel_keeps_other_levels:
  "m_levels s l = Some n \<Longrightarrow> l \<noteq> lvl \<or> n = name \<Longrightarrow>
   m_levels (AddLevel lvl name s) l = Some n \<and> m_levels (AddLevel lvl name s) lvl = Some name"
  by (auto simp: AddLevel_def)

theorem AddLevel_keeps_other_levels_witness:
  "m_levels (Logger_init (0::nat)) 1 = Some ''DEBUG''
   \<and> m_levels (AddLevel 4 ''TRACE'' (Logger_init (0::nat))) 1 = Some ''DEBUG''
   \<and> m_levels (AddLevel 4 ''TRACE'' (Logger_init (0::nat))) 2 = Some ''WARNING''
   \<and> m_levels (AddLevel 4 ''TRACE'' (Logger_init (0::nat))) 3 = Some ''ERROR''
   \<and> m_levels (AddLevel 4 ''TRACE'' (Logger_init (0::nat))) 4 = Some ''TRACE''"
  using AddLevel_keeps_other_levels [of "Logger_init (0::nat)" 1 "''DEBUG''" 4 "''TRACE''"]
    AddLevel_keeps_other_levels [of "Logger_init (0::nat)" 2 "''WARNING''" 4 "''TRACE''"]
    AddLevel_keeps_other_levels [of "Logger_init (0::nat)" 3 "''ERROR''" 4 "''TRACE''"]
  by (simp add: Logger_init_def)

text \<open>
  C9. The code at the input that breaks the claim: in the initial logger, level 0 has no
  entry in the registry of level names; after one call of \<^verbatim>\<open>Log\<close> at level 0 it has one,
  with the empty name, though \<^verbatim>\<open>AddLevel\<close> was never called.
\<close>

theorem Log_level_0_inserts_name:
  "m_levels (Logger_init c) 0 = None
   \<and> (\<exists>s'. Log_int ec env 0 cd det loc originator depth (Logger_init c) = Some s'
          \<and> m_levels s' 0 = Some [])"
proof -
  obtain s' where s': "Log_int ec env 0 cd det loc originator depth (Logger_init c) = Some s'"
    using Log_int_Some by blast
  have init: "m_levels (Logger_init c) 0 = None" "m_levelFormats (Logger_init c) 0 = None"
    by (simp_all add: Logger_init_def)
  from Log_int_fields(2) [OF s']
  have "m_levels s' = snd (map_subscript (m_levels (Logger_init c)) 0)"
    by (simp add: init)
  then have "m_levels s' 0 = Some []"
    by (simp add: map_subscript_snd init)
  with s' init show ?thesis by simp
qed

text \<open>
  C10. A call of \<^verbatim>\<open>Log\<close> with a null code name is the call with the integer code 0 at the
  same level; it returns and appends one line to the pending buffer.
\<close>

theorem Log_null_codename:
  "Log_str ec env lvl None det loc originator s = Log_int ec env lvl 0 det loc originator 3 s
   \<and> (\<exists>s'. Log_str ec env lvl None det loc originator s = Some s'
         \<and> m_pending s' =
           m_pending s @ spec_buffer_line ec s (make_LogMessage env lvl 0 det loc originator 3))"
  by (simp add: Log_str_eq Log_int_eq)

end
